theory Spec2Isabelle
  imports Main
begin

section \<open>Python strings and the built-ins the parser calls\<close>

text \<open>
  A Python \<open>str\<close> is a sequence of Unicode code points, and \<open>len\<close>, indexing and
  \<open>in\<close> count code points. A code point is a natural number here and a string a list of
  them; \<open>py\<close> writes an ASCII (or Latin-1) literal.
\<close>

type_synonym codepoint = nat
type_synonym pystr = "codepoint list"

abbreviation cp :: "char \<Rightarrow> codepoint" where
  "cp c \<equiv> of_char c"

definition py :: "string \<Rightarrow> pystr" where
  "py s = map of_char s"

text \<open>
  \<open>str.isspace\<close> for one code point: the characters \<open>str.split()\<close> and \<open>str.strip()\<close>
  treat as blank (tab to carriage return, the four information separators, space, NEL,
  no-break space, and the Unicode space separators).
\<close>

definition isspace :: "codepoint \<Rightarrow> bool" where
  "isspace c \<longleftrightarrow>
     (0x09 \<le> c \<and> c \<le> 0x0D) \<or> (0x1C \<le> c \<and> c \<le> 0x20) \<or> c = 0x85 \<or> c = 0xA0 \<or>
     c = 0x1680 \<or> (0x2000 \<le> c \<and> c \<le> 0x200A) \<or> c = 0x2028 \<or> c = 0x2029 \<or>
     c = 0x202F \<or> c = 0x205F \<or> c = 0x3000"

text \<open>\<open>s.strip()\<close>: blanks removed at both ends.\<close>

definition strip :: "pystr \<Rightarrow> pystr" where
  "strip s = rev (dropWhile isspace (rev (dropWhile isspace s)))"

text \<open>
  \<open>s.split()\<close>: the maximal runs of non-blank characters, in order. \<open>split_ws tok s\<close>
  reads \<open>s\<close> with the token in progress \<open>tok\<close>.
\<close>

fun split_ws :: "pystr \<Rightarrow> pystr \<Rightarrow> pystr list" where
  "split_ws tok [] = (if tok = [] then [] else [tok])"
| "split_ws tok (c # cs) =
     (if isspace c then (if tok = [] then split_ws [] cs else tok # split_ws [] cs)
      else split_ws (tok @ [c]) cs)"

definition split :: "pystr \<Rightarrow> pystr list" where
  "split s = split_ws [] s"

text \<open>
  \<open>s.split(sep)\<close> for a one-character separator: every occurrence cuts, so empty
  segments are kept and the result is never empty.
\<close>

fun split_on_acc :: "codepoint \<Rightarrow> pystr \<Rightarrow> pystr \<Rightarrow> pystr list" where
  "split_on_acc sep seg [] = [seg]"
| "split_on_acc sep seg (c # cs) =
     (if c = sep then seg # split_on_acc sep [] cs else split_on_acc sep (seg @ [c]) cs)"

definition split_on :: "codepoint \<Rightarrow> pystr \<Rightarrow> pystr list" where
  "split_on sep s = split_on_acc sep [] s"

text \<open>
  The Unicode tables behind \<open>str.isdigit\<close> and \<open>int\<close> (Unicode 14.0, as in CPython 3.11).
  \<open>decimal_zeros\<close> lists the zero of every run of ten decimal digits (Numeric_Type
  Decimal); \<open>digit_only_ranges\<close> lists the characters that are digits without being
  decimal (Numeric_Type Digit: superscripts, subscripts, circled digits and so on).
\<close>

definition decimal_zeros :: "codepoint list" where
  "decimal_zeros =
     [0x30, 0x660, 0x6F0, 0x7C0, 0x966, 0x9E6, 0xA66, 0xAE6, 0xB66, 0xBE6, 0xC66, 0xCE6,
      0xD66, 0xDE6, 0xE50, 0xED0, 0xF20, 0x1040, 0x1090, 0x17E0, 0x1810, 0x1946, 0x19D0,
      0x1A80, 0x1A90, 0x1B50, 0x1BB0, 0x1C40, 0x1C50, 0xA620, 0xA8D0, 0xA900, 0xA9D0,
      0xA9F0, 0xAA50, 0xABF0, 0xFF10, 0x104A0, 0x10D30, 0x11066, 0x110F0, 0x11136,
      0x111D0, 0x112F0, 0x11450, 0x114D0, 0x11650, 0x116C0, 0x11730, 0x118E0, 0x11950,
      0x11C50, 0x11D50, 0x11DA0, 0x16A60, 0x16AC0, 0x16B50, 0x1D7CE, 0x1D7D8, 0x1D7E2,
      0x1D7EC, 0x1D7F6, 0x1E140, 0x1E2F0, 0x1E950, 0x1FBF0]"

definition digit_only_ranges :: "(codepoint \<times> codepoint) list" where
  "digit_only_ranges =
     [(0xB2, 0xB3), (0xB9, 0xB9), (0x1369, 0x1371), (0x19DA, 0x19DA), (0x2070, 0x2070),
      (0x2074, 0x2079), (0x2080, 0x2089), (0x2460, 0x2468), (0x2474, 0x247C),
      (0x2488, 0x2490), (0x24EA, 0x24EA), (0x24F5, 0x24FD), (0x24FF, 0x24FF),
      (0x2776, 0x277E), (0x2780, 0x2788), (0x278A, 0x2792), (0x10A40, 0x10A43),
      (0x10E60, 0x10E68), (0x11052, 0x1105A), (0x1F100, 0x1F10A)]"

text \<open>The decimal value of a code point, if it is a decimal digit.\<close>

definition decimal_value :: "codepoint \<Rightarrow> nat option" where
  "decimal_value c =
     (case find (\<lambda>z. z \<le> c \<and> c < z + 10) decimal_zeros of
        None \<Rightarrow> None
      | Some z \<Rightarrow> Some (c - z))"

definition isdigit_char :: "codepoint \<Rightarrow> bool" where
  "isdigit_char c \<longleftrightarrow>
     decimal_value c \<noteq> None \<or> list_ex (\<lambda>(lo, hi). lo \<le> c \<and> c \<le> hi) digit_only_ranges"

text \<open>\<open>s.isdigit()\<close>: at least one character, and every character a digit.\<close>

definition isdigit :: "pystr \<Rightarrow> bool" where
  "isdigit s \<longleftrightarrow> s \<noteq> [] \<and> list_all isdigit_char s"

section \<open>Exceptions\<close>

text \<open>
  \<open>LexicalError\<close> and \<open>ParseError\<close> are the two subclasses of \<open>FenError\<close>; each carries its
  message, whose interpolated values (row number, character, count) are the arguments
  of the \<open>message\<close> constructor. \<open>ValueError\<close> is Python's own, raised by \<open>int\<close> and by a
  failed unpacking; it is not a \<open>FenError\<close>.
\<close>

datatype message =
    FieldsExpected6 nat
  | RanksExpected8 nat
  | EightOnlyAlone nat
  | CharNotAllowed codepoint nat
  | RowSumsTo nat nat
  | SideMustBeWB
  | CastlingCharInvalid codepoint
  | CastlingRepeated codepoint
  | EnPassantShape
  | EnPassantFileInvalid codepoint
  | EnPassantRankInvalid codepoint
  | HalfmoveNotDecimal
  | HalfmoveNegative
  | FullmoveNotDecimal
  | FullmoveBelowOne

datatype exn = LexicalError message | ParseError message | ValueError

text \<open>The \<open>kind\<close> attribute the two constructors set; \<open>ValueError\<close> has none.\<close>

fun kind :: "exn \<Rightarrow> string option" where
  "kind (LexicalError m) = Some ''LEXICAL''"
| "kind (ParseError m) = Some ''PARSE''"
| "kind ValueError = None"

fun is_lexical :: "exn + 'a \<Rightarrow> bool" where
  "is_lexical (Inl (LexicalError m)) = True"
| "is_lexical r = False"

fun is_syntactic :: "exn + 'a \<Rightarrow> bool" where
  "is_syntactic (Inl (ParseError m)) = True"
| "is_syntactic r = False"

text \<open>
  \<open>int(s)\<close> on the texts this program passes to it: a single character of \<open>1\<close> to \<open>7\<close>, or a
  field that passed \<open>isdigit\<close>. On these, \<open>int\<close> returns the base-ten value when every
  character is a decimal digit and raises \<open>ValueError\<close> otherwise. (Signs, underscores
  and surrounding blanks, which \<open>int\<close> also reads, cannot reach it here, and the optional
  limit on the number of digits is taken to be switched off.)
\<close>

definition py_int :: "pystr \<Rightarrow> exn + int" where
  "py_int s =
     (if s \<noteq> [] \<and> list_all (\<lambda>c. decimal_value c \<noteq> None) s
      then Inr (int (foldl (\<lambda>n c. 10 * n + the (decimal_value c)) 0 s))
      else Inl ValueError)"

section \<open>Data model\<close>

text \<open>
  The keys of the two glyph dictionaries are the piece letters; the glyphs are the
  Unicode chess symbols.
\<close>

definition UNICODE_WHITE :: "(codepoint \<times> codepoint) list" where
  "UNICODE_WHITE =
     [(cp CHR ''P'', 0x2659), (cp CHR ''N'', 0x2658), (cp CHR ''B'', 0x2657),
      (cp CHR ''R'', 0x2656), (cp CHR ''Q'', 0x2655), (cp CHR ''K'', 0x2654)]"

definition UNICODE_BLACK :: "(codepoint \<times> codepoint) list" where
  "UNICODE_BLACK =
     [(cp CHR ''p'', 0x265F), (cp CHR ''n'', 0x265E), (cp CHR ''b'', 0x265D),
      (cp CHR ''r'', 0x265C), (cp CHR ''q'', 0x265B), (cp CHR ''k'', 0x265A)]"

definition ALL_PIECES :: "codepoint set" where
  "ALL_PIECES = set (map fst UNICODE_WHITE) \<union> set (map fst UNICODE_BLACK)"

definition DIGITS_1_7 :: "codepoint set" where
  "DIGITS_1_7 = set (py ''1234567'')"

type_synonym cell = "codepoint option"

record FenRecord =
  board :: "cell list list"
  side_to_move :: pystr
  castling :: pystr
  en_passant :: pystr
  halfmove_clock :: int
  fullmove_number :: int

section \<open>Validation functions\<close>

text \<open>
  The functions keep the names of the source without the leading underscore. Where a
  local name of the source is also a field of \<open>FenRecord\<close> (\<open>board\<close>, \<open>castling\<close>), the
  local is renamed (\<open>rows\<close>, \<open>field\<close>, \<open>rights\<close>). For a one-character text \<open>c\<close>, Python's
  \<open>c in 'abcdefgh'\<close> is membership of the character in the set of those letters.
\<close>

definition validate_fields_count :: "pystr list \<Rightarrow> exn + unit" where
  "validate_fields_count parts =
     (if length parts \<noteq> 6 then Inl (ParseError (FieldsExpected6 (length parts)))
      else Inr ())"

text \<open>
  The inner \<open>while\<close> loop of \<open>_parse_piece_placement\<close>: \<open>scan_rank i rest row\<close> reads the
  characters \<open>rest\<close> still ahead in rank \<open>i\<close>, with the cells built so far in \<open>row\<close>.
\<close>

fun scan_rank :: "nat \<Rightarrow> pystr \<Rightarrow> cell list \<Rightarrow> exn + cell list" where
  "scan_rank i [] row = Inr row"
| "scan_rank i (ch # rest) row =
     (if ch \<in> ALL_PIECES then scan_rank i rest (row @ [Some ch])
      else if ch \<in> DIGITS_1_7 then
        (case py_int [ch] of
           Inl e \<Rightarrow> Inl e
         | Inr count \<Rightarrow> scan_rank i rest (row @ replicate (nat count) None))
      else if ch = cp CHR ''8'' then Inl (ParseError (EightOnlyAlone i))
      else Inl (LexicalError (CharNotAllowed ch i)))"

text \<open>The body of the \<open>for\<close> loop: one rank to one row.\<close>

definition parse_rank :: "nat \<Rightarrow> pystr \<Rightarrow> exn + cell list" where
  "parse_rank i rank =
     (if rank = py ''8'' then Inr (replicate 8 None)
      else
        (case scan_rank i rank [] of
           Inl e \<Rightarrow> Inl e
         | Inr row \<Rightarrow>
             if length row \<noteq> 8 then Inl (ParseError (RowSumsTo i (length row)))
             else Inr row))"

text \<open>The \<open>for\<close> loop over \<open>enumerate(ranks, start=1)\<close>, appending to \<open>board\<close> (here \<open>rows\<close>).\<close>

fun parse_ranks :: "nat \<Rightarrow> pystr list \<Rightarrow> cell list list \<Rightarrow> exn + cell list list" where
  "parse_ranks i [] rows = Inr rows"
| "parse_ranks i (rank # ranks) rows =
     (case parse_rank i rank of
        Inl e \<Rightarrow> Inl e
      | Inr row \<Rightarrow> parse_ranks (Suc i) ranks (rows @ [row]))"

definition parse_piece_placement :: "pystr \<Rightarrow> exn + cell list list" where
  "parse_piece_placement placement =
     (let ranks = split_on (cp CHR ''/'') placement in
      if length ranks \<noteq> 8 then Inl (ParseError (RanksExpected8 (length ranks)))
      else parse_ranks 1 ranks [])"

definition parse_side_to_move :: "pystr \<Rightarrow> exn + pystr" where
  "parse_side_to_move side =
     (if side \<notin> {py ''w'', py ''b''} then Inl (ParseError SideMustBeWB) else Inr side)"

text \<open>The loop of \<open>_parse_castling\<close>, with the set \<open>seen\<close> as state.\<close>

fun castling_loop :: "pystr \<Rightarrow> codepoint set \<Rightarrow> exn + unit" where
  "castling_loop [] seen = Inr ()"
| "castling_loop (ch # rest) seen =
     (if ch \<notin> set (py ''KQkq'') then Inl (LexicalError (CastlingCharInvalid ch))
      else if ch \<in> seen then Inl (ParseError (CastlingRepeated ch))
      else castling_loop rest (insert ch seen))"

definition parse_castling :: "pystr \<Rightarrow> exn + pystr" where
  "parse_castling field =
     (if field = py ''-'' then Inr field
      else
        (case castling_loop field {} of
           Inl e \<Rightarrow> Inl e
         | Inr _ \<Rightarrow> Inr field))"

definition parse_en_passant :: "pystr \<Rightarrow> exn + pystr" where
  "parse_en_passant ep =
     (if ep = py ''-'' then Inr ep
      else if length ep \<noteq> 2 then Inl (ParseError EnPassantShape)
      else
        (let file = ep ! 0; rank = ep ! 1 in
         if file \<notin> set (py ''abcdefgh'') then Inl (LexicalError (EnPassantFileInvalid file))
         else if rank \<notin> set (py ''36'') then Inl (ParseError (EnPassantRankInvalid rank))
         else Inr ep))"

definition parse_halfmove_clock :: "pystr \<Rightarrow> exn + int" where
  "parse_halfmove_clock hm =
     (if \<not> isdigit hm then Inl (LexicalError HalfmoveNotDecimal)
      else
        (case py_int hm of
           Inl e \<Rightarrow> Inl e
         | Inr val \<Rightarrow> if val < 0 then Inl (ParseError HalfmoveNegative) else Inr val))"

definition parse_fullmove_number :: "pystr \<Rightarrow> exn + int" where
  "parse_fullmove_number fn =
     (if \<not> isdigit fn then Inl (LexicalError FullmoveNotDecimal)
      else
        (case py_int fn of
           Inl e \<Rightarrow> Inl e
         | Inr val \<Rightarrow> if val < 1 then Inl (ParseError FullmoveBelowOne) else Inr val))"

text \<open>
  \<open>parse_fen\<close>: each call either raises, which ends the function with that exception, or
  hands its value to the next line. Unpacking \<open>parts\<close> into six names raises \<open>ValueError\<close>
  unless there are six of them.
\<close>

definition parse_fen :: "pystr \<Rightarrow> exn + FenRecord" where
  "parse_fen fen =
     (let parts = split (strip fen) in
      case validate_fields_count parts of
        Inl e \<Rightarrow> Inl e
      | Inr _ \<Rightarrow>
     (case parts of
        [placement, side, rights, ep, halfmove, fullmove] \<Rightarrow>
          (case parse_piece_placement placement of Inl e \<Rightarrow> Inl e | Inr rows \<Rightarrow>
          (case parse_side_to_move side of Inl e \<Rightarrow> Inl e | Inr side' \<Rightarrow>
          (case parse_castling rights of Inl e \<Rightarrow> Inl e | Inr rights' \<Rightarrow>
          (case parse_en_passant ep of Inl e \<Rightarrow> Inl e | Inr ep' \<Rightarrow>
          (case parse_halfmove_clock halfmove of Inl e \<Rightarrow> Inl e | Inr hm \<Rightarrow>
          (case parse_fullmove_number fullmove of Inl e \<Rightarrow> Inl e | Inr fn \<Rightarrow>
             Inr \<lparr>board = rows, side_to_move = side', castling = rights',
                  en_passant = ep', halfmove_clock = hm, fullmove_number = fn\<rparr>))))))
      | _ \<Rightarrow> Inl ValueError))"

section \<open>The checks in the order of the specification\<close>

text \<open>
  The specification describes validation as a fixed sequence of checks of which the first
  one violated is reported. The definitions of this section follow its words, not the
  code: they list, for an input, what every check in that sequence would report
  (\<open>None\<close> when the check passes), so that the parser can be compared with
  ``the first violation of the list''.
\<close>

fun raised :: "exn + 'a \<Rightarrow> exn option" where
  "raised (Inl e) = Some e"
| "raised (Inr v) = None"

fun first_raised :: "exn option list \<Rightarrow> exn option" where
  "first_raised [] = None"
| "first_raised (Some e # rest) = Some e"
| "first_raised (None # rest) = first_raised rest"

text \<open>
  The classification of one placement character in rank \<open>i\<close>: a piece letter or a digit
  \<open>1\<close> to \<open>7\<close> is legal, \<open>8\<close> is a syntax error, anything else a lexical error.
\<close>

definition char_violation :: "nat \<Rightarrow> codepoint \<Rightarrow> exn option" where
  "char_violation i ch =
     (if ch \<in> ALL_PIECES \<or> ch \<in> DIGITS_1_7 then None
      else if ch = cp CHR ''8'' then Some (ParseError (EightOnlyAlone i))
      else Some (LexicalError (CharNotAllowed ch i)))"

text \<open>The cells one legal character stands for: one piece, or a run of empty cells.\<close>

definition char_cells :: "codepoint \<Rightarrow> cell list" where
  "char_cells ch =
     (if ch \<in> ALL_PIECES then [Some ch]
      else if ch \<in> DIGITS_1_7 then replicate (ch - cp CHR ''0'') None
      else [])"

definition rank_cells :: "pystr \<Rightarrow> cell list" where
  "rank_cells rank = concat (map char_cells rank)"

text \<open>
  The checks of one rank: none for the rank \<open>8\<close>; otherwise its characters from left to
  right, then the length of the row.
\<close>

definition rank_violations :: "nat \<Rightarrow> pystr \<Rightarrow> exn option list" where
  "rank_violations i rank =
     (if rank = py ''8'' then []
      else map (char_violation i) rank @
           [if length (rank_cells rank) \<noteq> 8
            then Some (ParseError (RowSumsTo i (length (rank_cells rank)))) else None])"

fun ranks_violations :: "nat \<Rightarrow> pystr list \<Rightarrow> exn option list" where
  "ranks_violations i [] = []"
| "ranks_violations i (rank # ranks) = rank_violations i rank @ ranks_violations (Suc i) ranks"

text \<open>The checks of the placement field: the number of ranks, then the ranks from the first.\<close>

definition placement_violations :: "pystr \<Rightarrow> exn option list" where
  "placement_violations placement =
     (let ranks = split_on (cp CHR ''/'') placement in
      (if length ranks \<noteq> 8 then Some (ParseError (RanksExpected8 (length ranks))) else None)
      # ranks_violations 1 ranks)"

text \<open>
  The checks of a whole record: the number of fields, then placement, side to move,
  castling, en passant, halfmove clock and fullmove number. With another number of fields
  than six there are no fields to check.
\<close>

definition fen_violations :: "pystr \<Rightarrow> exn option list" where
  "fen_violations fen =
     (let parts = split (strip fen) in
      (if length parts \<noteq> 6 then Some (ParseError (FieldsExpected6 (length parts))) else None)
      # (case parts of
           [placement, side, rights, ep, halfmove, fullmove] \<Rightarrow>
             placement_violations placement @
             [raised (parse_side_to_move side), raised (parse_castling rights),
              raised (parse_en_passant ep), raised (parse_halfmove_clock halfmove),
              raised (parse_fullmove_number fullmove)]
         | _ \<Rightarrow> []))"

section \<open>Evaluation on concrete inputs\<close>

lemma replicate_numeral: "replicate (numeral k) x = x # replicate (pred_numeral k) x"
  by (simp add: numeral_eq_Suc)

lemmas table_defs = decimal_value_def decimal_zeros_def isdigit_def isdigit_char_def
  digit_only_ranges_def py_int_def isspace_def

lemmas field_defs = parse_side_to_move_def parse_castling_def parse_en_passant_def
  parse_halfmove_clock_def parse_fullmove_number_def

lemmas placement_defs = ALL_PIECES_def DIGITS_1_7_def UNICODE_WHITE_def
  UNICODE_BLACK_def parse_rank_def parse_piece_placement_def split_on_def replicate_numeral

lemmas fen_defs = py_def parse_fen_def validate_fields_count_def split_def strip_def

lemmas violation_defs = fen_violations_def placement_violations_def rank_violations_def
  char_violation_def rank_cells_def char_cells_def

section \<open>The placement decoder\<close>

subsection \<open>The decoder reports the first violation of its checks\<close>

lemma first_raised_append:
  "first_raised (xs @ ys) = (case first_raised xs of Some e \<Rightarrow> Some e | None \<Rightarrow> first_raised ys)"
  by (induction xs rule: first_raised.induct) auto

lemma py_int_digit_1_7:
  "ch \<in> DIGITS_1_7 \<Longrightarrow> py_int [ch] = Inr (int (ch - cp CHR ''0''))"
proof -
  assume "ch \<in> DIGITS_1_7"
  then consider "ch = 49" | "ch = 50" | "ch = 51" | "ch = 52" | "ch = 53" | "ch = 54" | "ch = 55"
    by (auto simp: DIGITS_1_7_def py_def)
  then show ?thesis
    by cases (simp_all add: table_defs)
qed

lemma scan_rank_eq:
  "scan_rank i rank row =
     (case first_raised (map (char_violation i) rank) of
        Some e \<Rightarrow> Inl e
      | None \<Rightarrow> Inr (row @ rank_cells rank))"
proof (induction rank arbitrary: row)
  case Nil
  then show ?case by (simp add: rank_cells_def)
next
  case (Cons ch rest)
  show ?case
  proof (cases "ch \<in> ALL_PIECES")
    case True
    then show ?thesis
      by (simp add: Cons.IH char_violation_def char_cells_def rank_cells_def split: option.splits)
  next
    case notpiece: False
    show ?thesis
    proof (cases "ch \<in> DIGITS_1_7")
      case True
      then show ?thesis
        using notpiece
        by (simp add: Cons.IH py_int_digit_1_7 char_violation_def char_cells_def rank_cells_def
            split: option.splits)
    next
      case False
      then show ?thesis
        using notpiece by (simp add: char_violation_def)
    qed
  qed
qed

lemma parse_rank_eq:
  "parse_rank i rank =
     (if rank = py ''8'' then Inr (replicate 8 None)
      else
        (case first_raised (map (char_violation i) rank) of
           Some e \<Rightarrow> Inl e
         | None \<Rightarrow>
             if length (rank_cells rank) \<noteq> 8
             then Inl (ParseError (RowSumsTo i (length (rank_cells rank))))
             else Inr (rank_cells rank)))"
  by (simp add: parse_rank_def scan_rank_eq split: option.splits)

lemma raised_parse_rank:
  "raised (parse_rank i rank) = first_raised (rank_violations i rank)"
  by (simp add: parse_rank_eq rank_violations_def first_raised_append split: option.splits)

lemma raised_parse_ranks:
  "raised (parse_ranks i ranks rows) = first_raised (ranks_violations i ranks)"
proof (induction ranks arbitrary: i rows)
  case Nil
  then show ?case by simp
next
  case (Cons rank ranks)
  show ?case
  proof (cases "parse_rank i rank")
    case (Inl e)
    then have "first_raised (rank_violations i rank) = Some e"
      using raised_parse_rank [of i rank] by simp
    then show ?thesis
      using Inl by (simp add: first_raised_append)
  next
    case (Inr row)
    then have "first_raised (rank_violations i rank) = None"
      using raised_parse_rank [of i rank] by simp
    then show ?thesis
      using Inr Cons.IH [of "Suc i" "rows @ [row]"] by (simp add: first_raised_append)
  qed
qed

lemma raised_parse_piece_placement:
  "raised (parse_piece_placement placement) = first_raised (placement_violations placement)"
  by (simp add: parse_piece_placement_def placement_violations_def Let_def raised_parse_ranks)

lemma eight_not_legal: "cp CHR ''8'' \<notin> ALL_PIECES" "cp CHR ''8'' \<notin> DIGITS_1_7"
  by (simp_all add: placement_defs py_def)

lemma first_raised_legal_prefix:
  "set pre \<subseteq> ALL_PIECES \<union> DIGITS_1_7 \<Longrightarrow>
   first_raised (map (char_violation i) (pre @ rest)) = first_raised (map (char_violation i) rest)"
  by (induction pre) (auto simp: char_violation_def)

lemma first_raised_classified:
  "ch \<in> set rank \<Longrightarrow> ch \<notin> ALL_PIECES \<Longrightarrow> ch \<notin> DIGITS_1_7 \<Longrightarrow>
   \<exists>m. first_raised (map (char_violation i) rank) = Some (ParseError m) \<or>
       first_raised (map (char_violation i) rank) = Some (LexicalError m)"
  by (induction rank) (auto simp: char_violation_def)

lemma parse_rank_stops_at:
  assumes "pre @ ch # post \<noteq> py ''8''"
    and "set pre \<subseteq> ALL_PIECES \<union> DIGITS_1_7" and "char_violation i ch = Some e"
  shows "parse_rank i (pre @ ch # post) = Inl e"
  using assms first_raised_legal_prefix [of pre i "ch # post"]
  by (simp add: parse_rank_eq)

lemma parse_ranks_first_failure:
  "\<forall>k<length before. \<exists>row. parse_rank (i + k) (before ! k) = Inr row \<Longrightarrow>
   parse_rank (i + length before) rank = Inl e \<Longrightarrow>
   parse_ranks i (before @ rank # after) rows = Inl e"
proof (induction before arbitrary: i rows)
  case Nil
  then show ?case by simp
next
  case (Cons b bs)
  from Cons.prems(1) obtain row where row: "parse_rank i b = Inr row"
    by fastforce
  have "\<forall>k<length bs. \<exists>row. parse_rank (Suc i + k) (bs ! k) = Inr row"
  proof (intro allI impI)
    fix k assume "k < length bs"
    then have "Suc k < length (b # bs)" by simp
    with Cons.prems(1) have "\<exists>row. parse_rank (i + Suc k) ((b # bs) ! Suc k) = Inr row"
      by blast
    then show "\<exists>row. parse_rank (Suc i + k) (bs ! k) = Inr row" by simp
  qed
  moreover have "parse_rank (Suc i + length bs) rank = Inl e"
    using Cons.prems(2) by simp
  ultimately have "parse_ranks (Suc i) (bs @ rank # after) (rows @ [row]) = Inl e"
    by (rule Cons.IH)
  with row show ?case by simp
qed

lemma placement_first_failure:
  assumes "split_on (cp CHR ''/'') placement = before @ rank # after"
    and "length before + length after = 7"
    and "\<forall>k<length before. \<exists>row. parse_rank (Suc k) (before ! k) = Inr row"
    and "parse_rank (Suc (length before)) rank = Inl e"
  shows "parse_piece_placement placement = Inl e"
proof -
  have "parse_ranks 1 (before @ rank # after) [] = Inl e"
    using assms(3,4) by (intro parse_ranks_first_failure) simp_all
  then show ?thesis
    using assms(1,2) by (simp add: parse_piece_placement_def)
qed

subsection \<open>The digit 8\<close>

text \<open>
  Claim C1, as the code has it. A rank whose text is exactly \<open>8\<close> decodes to eight empty
  cells. A rank other than \<open>8\<close> that contains the character \<open>8\<close> never decodes: the scan
  fails at the first character that is neither a piece letter nor a digit \<open>1\<close> to \<open>7\<close>.
  When every character before the first \<open>8\<close> is a piece letter or a digit \<open>1\<close> to \<open>7\<close>,
  that character is the \<open>8\<close> and the error is the syntax error ``8 only as the whole
  rank''; when another character comes before it, the error is the lexical error naming
  that character. The rank \<open>44\<close> decodes to eight empty cells, two runs of four, and the
  rank \<open>3p8\<close> is a syntax error.
\<close>

theorem eight_only_alone:
  "parse_rank i (py ''8'') = Inr (replicate 8 None) \<and>
   (rank \<noteq> py ''8'' \<and> cp CHR ''8'' \<in> set rank \<longrightarrow>
      is_syntactic (parse_rank i rank) \<or> is_lexical (parse_rank i rank)) \<and>
   (pre @ cp CHR ''8'' # post \<noteq> py ''8'' \<and> set pre \<subseteq> ALL_PIECES \<union> DIGITS_1_7 \<longrightarrow>
      parse_rank i (pre @ cp CHR ''8'' # post) = Inl (ParseError (EightOnlyAlone i))) \<and>
   (set pre \<subseteq> ALL_PIECES \<union> DIGITS_1_7 \<and> ch \<notin> ALL_PIECES \<union> DIGITS_1_7 \<and> ch \<noteq> cp CHR ''8'' \<longrightarrow>
      parse_rank i (pre @ ch # post) = Inl (LexicalError (CharNotAllowed ch i))) \<and>
   parse_rank i (py ''44'') = Inr (replicate 4 None @ replicate 4 None) \<and>
   parse_rank i (py ''44'') = Inr (replicate 8 None) \<and>
   parse_rank i (py ''3p8'') = Inl (ParseError (EightOnlyAlone i))"
proof (intro conjI impI)
  show "parse_rank i (py ''8'') = Inr (replicate 8 None)"
    by (simp add: parse_rank_def)
next
  assume a: "rank \<noteq> py ''8'' \<and> cp CHR ''8'' \<in> set rank"
  then obtain m where
    "first_raised (map (char_violation i) rank) = Some (ParseError m) \<or>
     first_raised (map (char_violation i) rank) = Some (LexicalError m)"
    using first_raised_classified [of "cp CHR ''8''" rank i] eight_not_legal by blast
  with a show "is_syntactic (parse_rank i rank) \<or> is_lexical (parse_rank i rank)"
    by (auto simp: parse_rank_eq)
next
  assume "pre @ cp CHR ''8'' # post \<noteq> py ''8'' \<and> set pre \<subseteq> ALL_PIECES \<union> DIGITS_1_7"
  moreover have "char_violation i (cp CHR ''8'') = Some (ParseError (EightOnlyAlone i))"
    using eight_not_legal by (simp add: char_violation_def)
  ultimately show "parse_rank i (pre @ cp CHR ''8'' # post) = Inl (ParseError (EightOnlyAlone i))"
    by (intro parse_rank_stops_at) simp_all
next
  assume a: "set pre \<subseteq> ALL_PIECES \<union> DIGITS_1_7 \<and> ch \<notin> ALL_PIECES \<union> DIGITS_1_7 \<and> ch \<noteq> cp CHR ''8''"
  then have "char_violation i ch = Some (LexicalError (CharNotAllowed ch i))"
    by (simp add: char_violation_def)
  moreover have "pre @ ch # post \<noteq> py ''8''"
    using a by (auto simp: py_def append_eq_Cons_conv)
  ultimately show "parse_rank i (pre @ ch # post) = Inl (LexicalError (CharNotAllowed ch i))"
    using a by (intro parse_rank_stops_at) simp_all
next
  show "parse_rank i (py ''44'') = Inr (replicate 4 None @ replicate 4 None)"
    by (simp add: placement_defs py_def table_defs)
next
  show "parse_rank i (py ''44'') = Inr (replicate 8 None)"
    by (simp add: placement_defs py_def table_defs)
next
  show "parse_rank i (py ''3p8'') = Inl (ParseError (EightOnlyAlone i))"
    by (simp add: placement_defs py_def table_defs)
qed

text \<open>
  The conditional parts of C1 at the ranks \<open>p8\<close> (syntax error at the \<open>8\<close>) and \<open>px8\<close>
  (lexical error at the \<open>x\<close> before the \<open>8\<close>).
\<close>

theorem eight_only_alone_witness:
  "py ''p8'' \<noteq> py ''8'' \<and> cp CHR ''8'' \<in> set (py ''p8'') \<and>
   set (py ''p'') \<subseteq> ALL_PIECES \<union> DIGITS_1_7 \<and>
   parse_rank 1 (py ''p8'') = Inl (ParseError (EightOnlyAlone 1)) \<and>
   cp CHR ''x'' \<notin> ALL_PIECES \<union> DIGITS_1_7 \<and> cp CHR ''x'' \<noteq> cp CHR ''8'' \<and>
   parse_rank 1 (py ''px8'') = Inl (LexicalError (CharNotAllowed (cp CHR ''x'') 1)) \<and>
   (is_syntactic (parse_rank 1 (py ''p8'')) \<or> is_lexical (parse_rank 1 (py ''p8'')))"
  using eight_only_alone [of 1 "py ''p8''" "py ''p''" "[]" "cp CHR ''x''"]
    eight_only_alone [of 1 "py ''p8''" "py ''p''" "py ''8''" "cp CHR ''x''"]
  by (simp add: py_def ALL_PIECES_def DIGITS_1_7_def UNICODE_WHITE_def UNICODE_BLACK_def)

text \<open>
  C1 as the specification words it fails at the rank \<open>x8\<close>: it is not \<open>8\<close>, it contains
  \<open>8\<close>, and its error is lexical, not syntactic.
\<close>

theorem eight_after_stray_counterexample:
  "py ''x8'' \<noteq> py ''8'' \<and> cp CHR ''8'' \<in> set (py ''x8'') \<and>
   parse_rank 1 (py ''x8'') = Inl (LexicalError (CharNotAllowed (cp CHR ''x'') 1)) \<and>
   \<not> is_syntactic (parse_rank 1 (py ''x8''))"
  by (simp add: placement_defs py_def table_defs)

subsection \<open>Characters outside the alphabet\<close>

lemma digits_1_8: "DIGITS_1_7 \<union> {cp CHR ''8''} = set (py ''12345678'')"
  by (auto simp: DIGITS_1_7_def py_def)

text \<open>
  Claim C6. Take a placement field of eight ranks and a character \<open>ch\<close> of it that is not
  a piece letter, not a digit \<open>1\<close> to \<open>8\<close> and not \<open>/\<close>. If the scan reaches \<open>ch\<close>, that is,
  if every rank before the rank of \<open>ch\<close> decodes and every character before \<open>ch\<close> in its
  rank is a piece letter or a digit \<open>1\<close> to \<open>7\<close>, then decoding fails with the lexical error
  that names \<open>ch\<close> and the number of its rank; the error is not a syntax error.
\<close>

theorem stray_character_is_lexical:
  assumes "split_on (cp CHR ''/'') placement = before @ (pre @ ch # post) # after"
    and "length before + length after = 7"
    and "\<forall>k<length before. \<exists>row. parse_rank (Suc k) (before ! k) = Inr row"
    and "set pre \<subseteq> ALL_PIECES \<union> DIGITS_1_7"
    and "ch \<notin> ALL_PIECES \<union> set (py ''12345678'') \<union> {cp CHR ''/''}"
  shows "parse_piece_placement placement =
           Inl (LexicalError (CharNotAllowed ch (Suc (length before)))) \<and>
         is_lexical (parse_piece_placement placement) \<and>
         \<not> is_syntactic (parse_piece_placement placement)"
proof -
  from assms(5) have ch: "ch \<notin> ALL_PIECES" "ch \<notin> DIGITS_1_7" "ch \<noteq> cp CHR ''8''"
    using digits_1_8 by auto
  then have "char_violation (Suc (length before)) ch =
      Some (LexicalError (CharNotAllowed ch (Suc (length before))))"
    by (simp add: char_violation_def)
  moreover have "pre @ ch # post \<noteq> py ''8''"
    using ch(3) by (auto simp: py_def append_eq_Cons_conv)
  ultimately have "parse_rank (Suc (length before)) (pre @ ch # post) =
      Inl (LexicalError (CharNotAllowed ch (Suc (length before))))"
    using assms(4) by (intro parse_rank_stops_at) simp_all
  then have "parse_piece_placement placement =
      Inl (LexicalError (CharNotAllowed ch (Suc (length before))))"
    using assms(1,2,3) by (intro placement_first_failure) simp_all
  then show ?thesis by simp
qed

text \<open>C6 at the placement \<open>8/3x4/8/8/8/8/8/8\<close>: the \<open>x\<close> of rank 2 is reported.\<close>

theorem stray_character_is_lexical_witness:
  "split_on (cp CHR ''/'') (py ''8/3x4/8/8/8/8/8/8'') =
     [py ''8''] @ (py ''3'' @ cp CHR ''x'' # py ''4'') # replicate 6 (py ''8'') \<and>
   length [py ''8''] + length (replicate 6 (py ''8'')) = 7 \<and>
   parse_rank 1 (py ''8'') = Inr (replicate 8 None) \<and>
   set (py ''3'') \<subseteq> ALL_PIECES \<union> DIGITS_1_7 \<and>
   cp CHR ''x'' \<notin> ALL_PIECES \<union> set (py ''12345678'') \<union> {cp CHR ''/''} \<and>
   parse_piece_placement (py ''8/3x4/8/8/8/8/8/8'') =
     Inl (LexicalError (CharNotAllowed (cp CHR ''x'') 2))"
proof -
  have h1: "split_on (cp CHR ''/'') (py ''8/3x4/8/8/8/8/8/8'') =
     [py ''8''] @ (py ''3'' @ cp CHR ''x'' # py ''4'') # replicate 6 (py ''8'')"
    by (simp add: split_on_def py_def replicate_numeral)
  have h2: "length [py ''8''] + length (replicate 6 (py ''8'')) = 7"
    by simp
  have h3: "\<forall>k<length [py ''8'']. \<exists>row. parse_rank (Suc k) ([py ''8''] ! k) = Inr row"
    by (simp add: parse_rank_def)
  have h4: "set (py ''3'') \<subseteq> ALL_PIECES \<union> DIGITS_1_7"
    by (simp add: DIGITS_1_7_def py_def)
  have h5: "cp CHR ''x'' \<notin> ALL_PIECES \<union> set (py ''12345678'') \<union> {cp CHR ''/''}"
    by (simp add: ALL_PIECES_def UNICODE_WHITE_def UNICODE_BLACK_def py_def)
  have h6: "parse_rank 1 (py ''8'') = Inr (replicate 8 None)"
    by (simp add: parse_rank_def)
  from stray_character_is_lexical [OF h1 h2 h3 h4 h5] h1 h2 h4 h5 h6
  show ?thesis by simp
qed

subsection \<open>Empty ranks\<close>

lemma empty_rank_always_fails:
  "[] \<in> set ranks \<Longrightarrow> first_raised (ranks_violations i ranks) \<noteq> None"
proof (induction ranks arbitrary: i)
  case Nil
  then show ?case by simp
next
  case (Cons rank ranks)
  show ?case
  proof (cases "rank = []")
    case True
    then show ?thesis
      by (simp add: rank_violations_def rank_cells_def py_def)
  next
    case False
    with Cons.prems have "[] \<in> set ranks" by simp
    from Cons.IH [OF this] show ?thesis
      by (simp add: first_raised_append split: option.splits)
  qed
qed

text \<open>
  Claim C10, as the code has it. An empty rank is a row of 0 columns: decoding it alone
  is the syntax error ``row \<open>i\<close> sums to 0'', never a lexical error. In a placement field
  of eight ranks, if every rank before an empty one decodes, decoding fails with that
  syntax error for the empty rank. If a rank before it fails, the error of that earlier
  rank is reported instead, whatever its class. In every case a placement of eight ranks
  with an empty rank fails to decode.
\<close>

theorem empty_rank_is_row_of_zero:
  "parse_rank i [] = Inl (ParseError (RowSumsTo i 0)) \<and>
   (split_on (cp CHR ''/'') placement = before @ [] # after \<and>
    length before + length after = 7 \<and>
    (\<forall>k<length before. \<exists>row. parse_rank (Suc k) (before ! k) = Inr row) \<longrightarrow>
      parse_piece_placement placement =
        Inl (ParseError (RowSumsTo (Suc (length before)) 0))) \<and>
   (split_on (cp CHR ''/'') placement = before @ rank # after \<and>
    length before + length after = 7 \<and>
    (\<forall>k<length before. \<exists>row. parse_rank (Suc k) (before ! k) = Inr row) \<and>
    parse_rank (Suc (length before)) rank = Inl e \<longrightarrow>
      parse_piece_placement placement = Inl e) \<and>
   (length (split_on (cp CHR ''/'') placement) = 8 \<and>
    [] \<in> set (split_on (cp CHR ''/'') placement) \<longrightarrow>
      (\<exists>e'. parse_piece_placement placement = Inl e'))"
proof (intro conjI impI)
  show empty: "parse_rank i [] = Inl (ParseError (RowSumsTo i 0))" for i
    by (simp add: parse_rank_def py_def)
  show "parse_piece_placement placement = Inl (ParseError (RowSumsTo (Suc (length before)) 0))"
    if "split_on (cp CHR ''/'') placement = before @ [] # after \<and>
        length before + length after = 7 \<and>
        (\<forall>k<length before. \<exists>row. parse_rank (Suc k) (before ! k) = Inr row)"
    using that empty [of "Suc (length before)"]
      placement_first_failure
        [of placement before "[]" after "ParseError (RowSumsTo (Suc (length before)) 0)"]
    by blast
  show "parse_piece_placement placement = Inl e"
    if "split_on (cp CHR ''/'') placement = before @ rank # after \<and>
        length before + length after = 7 \<and>
        (\<forall>k<length before. \<exists>row. parse_rank (Suc k) (before ! k) = Inr row) \<and>
        parse_rank (Suc (length before)) rank = Inl e"
    using that placement_first_failure [of placement before rank after e] by blast
  show "\<exists>e'. parse_piece_placement placement = Inl e'"
    if "length (split_on (cp CHR ''/'') placement) = 8 \<and>
        [] \<in> set (split_on (cp CHR ''/'') placement)"
  proof -
    from that have "first_raised (placement_violations placement) \<noteq> None"
      using empty_rank_always_fails [of "split_on (cp CHR ''/'') placement" 1]
      by (simp add: placement_violations_def Let_def)
    then have "raised (parse_piece_placement placement) \<noteq> None"
      by (simp add: raised_parse_piece_placement)
    then show ?thesis by (cases "parse_piece_placement placement") simp_all
  qed
qed

text \<open>C10 at the placement \<open>8//8/8/8/8/8/8\<close>: row 2 is reported with 0 columns.\<close>

theorem empty_rank_is_row_of_zero_witness:
  "split_on (cp CHR ''/'') (py ''8//8/8/8/8/8/8'') = [py ''8''] @ [] # replicate 6 (py ''8'') \<and>
   length [py ''8''] + length (replicate 6 (py ''8'')) = 7 \<and>
   parse_rank 1 (py ''8'') = Inr (replicate 8 None) \<and>
   parse_piece_placement (py ''8//8/8/8/8/8/8'') = Inl (ParseError (RowSumsTo 2 0)) \<and>
   length (split_on (cp CHR ''/'') (py ''8//8/8/8/8/8/8'')) = 8 \<and>
   [] \<in> set (split_on (cp CHR ''/'') (py ''8//8/8/8/8/8/8''))"
proof -
  have h1: "split_on (cp CHR ''/'') (py ''8//8/8/8/8/8/8'') =
      [py ''8''] @ [] # replicate 6 (py ''8'')"
    by (simp add: split_on_def py_def replicate_numeral)
  have h2: "length [py ''8''] + length (replicate 6 (py ''8'')) = 7"
    by simp
  have h3: "\<forall>k<length [py ''8'']. \<exists>row. parse_rank (Suc k) ([py ''8''] ! k) = Inr row"
    by (simp add: parse_rank_def)
  have "parse_piece_placement (py ''8//8/8/8/8/8/8'') =
      Inl (ParseError (RowSumsTo (Suc (length [py ''8''])) 0))"
    using empty_rank_is_row_of_zero
      [of 1 "py ''8//8/8/8/8/8/8''" "[py ''8'']" "replicate 6 (py ''8'')" "[]"
          "ParseError (RowSumsTo 2 0)"]
      h1 h2 h3 by blast
  moreover have "parse_rank 1 (py ''8'') = Inr (replicate 8 None)"
    by (simp add: parse_rank_def)
  ultimately show ?thesis using h1 h2 by simp
qed

text \<open>
  C10 as stated fails at the placement \<open>x//8/8/8/8/8/8\<close>: it has eight ranks, the second
  is empty, and the error is the lexical error for the \<open>x\<close> of rank 1.
\<close>

theorem empty_rank_after_stray_counterexample:
  "length (split_on (cp CHR ''/'') (py ''x//8/8/8/8/8/8'')) = 8 \<and>
   split_on (cp CHR ''/'') (py ''x//8/8/8/8/8/8'') ! 1 = [] \<and>
   parse_piece_placement (py ''x//8/8/8/8/8/8'') =
     Inl (LexicalError (CharNotAllowed (cp CHR ''x'') 1)) \<and>
   \<not> is_syntactic (parse_piece_placement (py ''x//8/8/8/8/8/8''))"
  by (simp add: placement_defs py_def table_defs)

subsection \<open>Rows and cells of a decoded grid\<close>

lemma rank_cells_valid:
  "c \<in> set (rank_cells rank) \<Longrightarrow> c = None \<or> (\<exists>p\<in>ALL_PIECES. c = Some p)"
  by (auto simp: rank_cells_def char_cells_def split: if_splits)

lemma parse_rank_row:
  assumes "parse_rank i rank = Inr row"
  shows "length row = 8 \<and> (\<forall>c\<in>set row. c = None \<or> (\<exists>p\<in>ALL_PIECES. c = Some p))"
proof (cases "rank = py ''8''")
  case True
  with assms show ?thesis by (auto simp: parse_rank_eq)
next
  case False
  with assms have "row = rank_cells rank" and "length (rank_cells rank) = 8"
    by (auto simp: parse_rank_eq split: option.splits if_splits)
  then show ?thesis using rank_cells_valid by blast
qed

lemma parse_ranks_rows:
  "parse_ranks i ranks rows = Inr b \<Longrightarrow>
   length b = length rows + length ranks \<and>
   set b \<subseteq> set rows \<union> {row. \<exists>j rank. parse_rank j rank = Inr row}"
proof (induction ranks arbitrary: i rows)
  case Nil
  then show ?case by auto
next
  case (Cons rank ranks)
  from Cons.prems obtain row where row: "parse_rank i rank = Inr row"
    and rest: "parse_ranks (Suc i) ranks (rows @ [row]) = Inr b"
    by (auto split: sum.splits)
  from Cons.IH [OF rest] row show ?case by auto
qed

lemma parse_piece_placement_grid:
  assumes "parse_piece_placement placement = Inr b"
  shows "length b = 8 \<and>
    (\<forall>row\<in>set b. length row = 8 \<and> (\<forall>c\<in>set row. c = None \<or> (\<exists>p\<in>ALL_PIECES. c = Some p)))"
proof -
  let ?ranks = "split_on (cp CHR ''/'') placement"
  from assms have len: "length ?ranks = 8" and ranks: "parse_ranks 1 ?ranks [] = Inr b"
    by (auto simp: parse_piece_placement_def Let_def split: if_splits)
  from parse_ranks_rows [OF ranks] len
  have "length b = 8" and "set b \<subseteq> {row. \<exists>j rank. parse_rank j rank = Inr row}"
    by auto
  then show ?thesis using parse_rank_row by blast
qed

lemma parse_fen_fields:
  assumes "parse_fen fen = Inr r"
  shows "\<exists>placement side rights ep halfmove fullmove.
     split (strip fen) = [placement, side, rights, ep, halfmove, fullmove] \<and>
     parse_piece_placement placement = Inr (board r) \<and>
     parse_side_to_move side = Inr (side_to_move r) \<and>
     parse_castling rights = Inr (castling r) \<and>
     parse_en_passant ep = Inr (en_passant r) \<and>
     parse_halfmove_clock halfmove = Inr (halfmove_clock r) \<and>
     parse_fullmove_number fullmove = Inr (fullmove_number r)"
  using assms
  by (auto simp: parse_fen_def Let_def split: sum.splits list.splits)

lemma all_pieces_letters: "ALL_PIECES = set (py ''PNBRQKpnbrqk'')"
  by (auto simp: ALL_PIECES_def UNICODE_WHITE_def UNICODE_BLACK_def py_def)

lemma card_all_pieces: "card ALL_PIECES = 12"
  by (simp add: ALL_PIECES_def UNICODE_WHITE_def UNICODE_BLACK_def)

section \<open>Scalar field validators\<close>

subsection \<open>En passant\<close>

text \<open>
  Claim C7. The en-passant validator returns \<open>-\<close> (no target square) for the field \<open>-\<close>.
  Any other field whose length is not 2 is a syntax error; a two-character field whose
  first character is not one of \<open>a\<close> to \<open>h\<close> is a lexical error naming that character; a
  two-character field with a file in \<open>a\<close> to \<open>h\<close> whose second character is not \<open>3\<close> or \<open>6\<close>
  is a syntax error naming that character; and the remaining fields are returned as they
  are. The length is tested before the file and the file before the rank. So \<open>e3\<close>, \<open>e6\<close>
  and \<open>-\<close> are accepted, \<open>e4\<close> is a syntax error, \<open>i3\<close> a lexical error and \<open>e\<close> a syntax
  error.
\<close>

theorem en_passant_checks_in_order:
  "parse_en_passant (py ''-'') = Inr (py ''-'') \<and>
   (ep \<noteq> py ''-'' \<and> length ep \<noteq> 2 \<longrightarrow> parse_en_passant ep = Inl (ParseError EnPassantShape)) \<and>
   (f \<notin> set (py ''abcdefgh'') \<longrightarrow>
      parse_en_passant [f, r] = Inl (LexicalError (EnPassantFileInvalid f))) \<and>
   (f \<in> set (py ''abcdefgh'') \<and> r \<notin> set (py ''36'') \<longrightarrow>
      parse_en_passant [f, r] = Inl (ParseError (EnPassantRankInvalid r))) \<and>
   (f \<in> set (py ''abcdefgh'') \<and> r \<in> set (py ''36'') \<longrightarrow> parse_en_passant [f, r] = Inr [f, r]) \<and>
   parse_en_passant (py ''e3'') = Inr (py ''e3'') \<and>
   parse_en_passant (py ''e6'') = Inr (py ''e6'') \<and>
   is_syntactic (parse_en_passant (py ''e4'')) \<and>
   is_lexical (parse_en_passant (py ''i3'')) \<and>
   is_syntactic (parse_en_passant (py ''e''))"
  by (simp add: parse_en_passant_def py_def)

text \<open>The four conditional parts of C7 at \<open>abc\<close>, \<open>i3\<close>, \<open>e4\<close> and \<open>e3\<close>.\<close>

theorem en_passant_checks_in_order_witness:
  "py ''abc'' \<noteq> py ''-'' \<and> length (py ''abc'') \<noteq> 2 \<and>
   parse_en_passant (py ''abc'') = Inl (ParseError EnPassantShape) \<and>
   cp CHR ''i'' \<notin> set (py ''abcdefgh'') \<and>
   parse_en_passant (py ''i3'') = Inl (LexicalError (EnPassantFileInvalid (cp CHR ''i''))) \<and>
   cp CHR ''e'' \<in> set (py ''abcdefgh'') \<and> cp CHR ''4'' \<notin> set (py ''36'') \<and>
   parse_en_passant (py ''e4'') = Inl (ParseError (EnPassantRankInvalid (cp CHR ''4''))) \<and>
   cp CHR ''3'' \<in> set (py ''36'') \<and>
   parse_en_passant (py ''e3'') = Inr (py ''e3'')"
  using en_passant_checks_in_order [of "py ''abc''" "cp CHR ''i''" "cp CHR ''3''"]
    en_passant_checks_in_order [of "py ''abc''" "cp CHR ''e''" "cp CHR ''4''"]
    en_passant_checks_in_order [of "py ''abc''" "cp CHR ''e''" "cp CHR ''3''"]
  by (simp add: py_def)

subsection \<open>Castling\<close>

lemma castling_loop_ok:
  "castling_loop s seen = Inr () \<longleftrightarrow>
     distinct s \<and> set s \<subseteq> set (py ''KQkq'') \<and> set s \<inter> seen = {}"
  by (induction s arbitrary: seen) auto

text \<open>
  Claim C5, as the code has it. The castling validator accepts \<open>-\<close> and every text of
  distinct letters from \<open>K\<close>, \<open>Q\<close>, \<open>k\<close>, \<open>q\<close> in any order, accepts nothing else, and returns
  the text exactly as it was given: it builds no canonical set. Two inputs that denote
  the same rights in a different order, such as \<open>Kq\<close> and \<open>qK\<close>, are both accepted and
  have the same set of letters, but each yields its own text.
\<close>

theorem castling_returned_unchanged:
  "(parse_castling field = Inr v \<longleftrightarrow>
      v = field \<and> (field = py ''-'' \<or> distinct field \<and> set field \<subseteq> set (py ''KQkq''))) \<and>
   parse_castling (py ''Kq'') = Inr (py ''Kq'') \<and>
   parse_castling (py ''qK'') = Inr (py ''qK'') \<and>
   set (py ''Kq'') = set (py ''qK'')"
proof -
  have "parse_castling field = Inr v \<longleftrightarrow>
      v = field \<and> (field = py ''-'' \<or> distinct field \<and> set field \<subseteq> set (py ''KQkq''))"
    using castling_loop_ok [of field "{}"]
    by (auto simp: parse_castling_def split: sum.splits)
  moreover have "parse_castling (py ''Kq'') = Inr (py ''Kq'')"
    by (simp add: parse_castling_def py_def)
  moreover have "parse_castling (py ''qK'') = Inr (py ''qK'')"
    by (simp add: parse_castling_def py_def)
  moreover have "set (py ''Kq'') = set (py ''qK'')"
    by (auto simp: py_def)
  ultimately show ?thesis by blast
qed

text \<open>The equivalence of C5 read at \<open>KQkq\<close>, which is accepted and returned.\<close>

theorem castling_returned_unchanged_witness:
  "distinct (py ''KQkq'') \<and> set (py ''KQkq'') \<subseteq> set (py ''KQkq'') \<and>
   parse_castling (py ''KQkq'') = Inr (py ''KQkq'')"
  using castling_returned_unchanged [of "py ''KQkq''" "py ''KQkq''"]
  by (simp add: py_def)

text \<open>
  C5 as the specification words it fails: the records decoded from two positions that
  differ only in the order of \<open>K\<close> and \<open>q\<close> carry different castling values.
\<close>

theorem castling_order_kept_counterexample:
  "parse_fen (py ''8/8/8/8/8/8/8/8 w Kq - 0 1'') =
     Inr \<lparr>board = replicate 8 (replicate 8 None), side_to_move = py ''w'',
          castling = py ''Kq'', en_passant = py ''-'', halfmove_clock = 0,
          fullmove_number = 1\<rparr> \<and>
   parse_fen (py ''8/8/8/8/8/8/8/8 w qK - 0 1'') =
     Inr \<lparr>board = replicate 8 (replicate 8 None), side_to_move = py ''w'',
          castling = py ''qK'', en_passant = py ''-'', halfmove_clock = 0,
          fullmove_number = 1\<rparr> \<and>
   py ''Kq'' \<noteq> py ''qK''"
  by (simp add: fen_defs placement_defs field_defs table_defs)

subsection \<open>Halfmove clock\<close>

text \<open>
  What the validator does on every field: a field that fails \<open>isdigit\<close> is a lexical
  error; the branch for a negative value is never taken; a value returned is not
  negative; a field of decimal digits yields its value; and a field that passes \<open>isdigit\<close>
  with a digit that is not decimal makes \<open>int\<close> raise \<open>ValueError\<close>.
\<close>

lemma halfmove_clock_cases:
  "(\<not> isdigit hm \<longrightarrow> parse_halfmove_clock hm = Inl (LexicalError HalfmoveNotDecimal)) \<and>
   parse_halfmove_clock hm \<noteq> Inl (ParseError HalfmoveNegative) \<and>
   (parse_halfmove_clock hm = Inr v \<longrightarrow> 0 \<le> v) \<and>
   (isdigit hm \<and> list_all (\<lambda>c. decimal_value c \<noteq> None) hm \<longrightarrow>
      (\<exists>n. parse_halfmove_clock hm = Inr (int n))) \<and>
   (isdigit hm \<and> \<not> list_all (\<lambda>c. decimal_value c \<noteq> None) hm \<longrightarrow>
      parse_halfmove_clock hm = Inl ValueError)"
  by (auto simp: parse_halfmove_clock_def py_int_def isdigit_def split: sum.splits if_splits)

text \<open>
  Claim C8 at the field made of the single character SUPERSCRIPT TWO (U+00B2). The field
  passes the digit-only test \<open>isdigit\<close>, yet the validator returns no integer: \<open>int\<close>
  raises \<open>ValueError\<close>, which is neither of the validator's two errors.
\<close>

theorem halfmove_superscript_two_raises:
  "isdigit [0xB2] \<and> parse_halfmove_clock [0xB2] = Inl ValueError"
  by (simp add: field_defs table_defs)

section \<open>The record assembler\<close>

subsection \<open>The field splitter\<close>

lemma split_ws_tokens:
  "\<not> list_ex isspace tok \<Longrightarrow>
   list_all (\<lambda>t. t \<noteq> [] \<and> \<not> list_ex isspace t) (split_ws tok s)"
  by (induction s arbitrary: tok) simp_all

lemma concat_split_ws:
  "concat (split_ws tok s) = tok @ filter (\<lambda>c. \<not> isspace c) s"
  by (induction s arbitrary: tok) auto

lemma filter_dropWhile_space:
  "filter (\<lambda>c. \<not> isspace c) (dropWhile isspace s) = filter (\<lambda>c. \<not> isspace c) s"
  by (induction s) auto

lemma filter_strip: "filter (\<lambda>c. \<not> isspace c) (strip s) = filter (\<lambda>c. \<not> isspace c) s"
proof -
  have "filter (\<lambda>c. \<not> isspace c) (strip s) =
        rev (filter (\<lambda>c. \<not> isspace c) (dropWhile isspace (rev (dropWhile isspace s))))"
    by (simp add: strip_def rev_filter)
  also have "\<dots> = rev (filter (\<lambda>c. \<not> isspace c) (rev (dropWhile isspace s)))"
    by (simp only: filter_dropWhile_space)
  also have "\<dots> = filter (\<lambda>c. \<not> isspace c) (dropWhile isspace s)"
    by (simp add: rev_filter)
  finally show ?thesis by (simp add: filter_dropWhile_space)
qed

lemma split_ws_cut:
  "isspace w \<Longrightarrow> split_ws tok (a @ w # b) = split_ws tok a @ split_ws [] b"
  by (induction a arbitrary: tok) auto

lemma split_ws_token:
  "\<not> list_ex isspace t \<Longrightarrow> tok @ t \<noteq> [] \<Longrightarrow> split_ws tok t = [tok @ t]"
  by (induction t arbitrary: tok) auto

text \<open>
  Claim C9. The fields are the tokens of \<open>fen.strip().split()\<close>: the input is cut at runs
  of blanks, so every token is non-empty and free of blanks, the tokens together are the
  non-blank characters of the input in order, a blank between two texts separates their
  tokens, and a non-empty text without blanks is one token. For every input whose number
  of tokens is not 6, \<open>parse_fen\<close> fails with the syntax error whose message carries that
  number; this is the outcome whatever the tokens contain, so no field validator
  decides it.
\<close>

theorem wrong_field_count:
  "(length (split (strip fen)) \<noteq> 6 \<longrightarrow>
      parse_fen fen = Inl (ParseError (FieldsExpected6 (length (split (strip fen)))))) \<and>
   list_all (\<lambda>t. t \<noteq> [] \<and> \<not> list_ex isspace t) (split (strip fen)) \<and>
   concat (split (strip fen)) = filter (\<lambda>c. \<not> isspace c) fen \<and>
   (isspace w \<longrightarrow> split (a @ w # b) = split a @ split b) \<and>
   (t \<noteq> [] \<and> \<not> list_ex isspace t \<longrightarrow> split t = [t])"
proof (intro conjI impI)
  show "parse_fen fen = Inl (ParseError (FieldsExpected6 (length (split (strip fen)))))"
    if "length (split (strip fen)) \<noteq> 6"
    using that by (simp add: parse_fen_def validate_fields_count_def Let_def)
  show "list_all (\<lambda>t. t \<noteq> [] \<and> \<not> list_ex isspace t) (split (strip fen))"
    unfolding split_def by (rule split_ws_tokens) simp
  show "concat (split (strip fen)) = filter (\<lambda>c. \<not> isspace c) fen"
    by (simp add: split_def concat_split_ws filter_strip)
  show "split (a @ w # b) = split a @ split b" if "isspace w"
    using that by (simp add: split_def split_ws_cut)
  show "split t = [t]" if "t \<noteq> [] \<and> \<not> list_ex isspace t"
    using that by (simp add: split_def split_ws_token)
qed

text \<open>
  C9 at an input of five fields, at a blank between \<open>w\<close> and \<open>b\<close>, and at the token \<open>w\<close>.
\<close>

theorem wrong_field_count_witness:
  "length (split (strip (py ''8/8/8/8/8/8/8/8 w - -  0''))) = 5 \<and>
   parse_fen (py ''8/8/8/8/8/8/8/8 w - -  0'') = Inl (ParseError (FieldsExpected6 5)) \<and>
   isspace (cp CHR '' '') \<and>
   split (py ''w'' @ cp CHR '' '' # py '' b'') = split (py ''w'') @ split (py '' b'') \<and>
   py ''w'' \<noteq> [] \<and> \<not> list_ex isspace (py ''w'') \<and> split (py ''w'') = [py ''w'']"
proof -
  have h: "length (split (strip (py ''8/8/8/8/8/8/8/8 w - -  0''))) = 5"
    by (simp add: fen_defs isspace_def)
  have w: "isspace (cp CHR '' '')"
    by (simp add: isspace_def)
  have t: "py ''w'' \<noteq> [] \<and> \<not> list_ex isspace (py ''w'')"
    by (simp add: py_def isspace_def)
  from h w t
    wrong_field_count [of "py ''8/8/8/8/8/8/8/8 w - -  0''" "cp CHR '' ''" "py ''w''" "py '' b''"
      "py ''w''"]
  show ?thesis by simp
qed

subsection \<open>Fail-fast order\<close>

lemma raised_parse_fen_six:
  assumes "split (strip fen) = [placement, side, rights, ep, halfmove, fullmove]"
  shows "raised (parse_fen fen) =
     first_raised (placement_violations placement @
       [raised (parse_side_to_move side), raised (parse_castling rights),
        raised (parse_en_passant ep), raised (parse_halfmove_clock halfmove),
        raised (parse_fullmove_number fullmove)])"
proof (cases "parse_piece_placement placement")
  case (Inl e)
  then have "first_raised (placement_violations placement) = Some e"
    using raised_parse_piece_placement [of placement] by simp
  with Inl assms show ?thesis
    by (simp add: parse_fen_def validate_fields_count_def first_raised_append)
next
  case (Inr rows)
  then have "first_raised (placement_violations placement) = None"
    using raised_parse_piece_placement [of placement] by simp
  with Inr assms show ?thesis
    by (cases "parse_side_to_move side"; cases "parse_castling rights";
        cases "parse_en_passant ep"; cases "parse_halfmove_clock halfmove";
        cases "parse_fullmove_number fullmove")
       (simp_all add: parse_fen_def validate_fields_count_def first_raised_append)
qed

lemma length_six:
  "length xs = 6 \<Longrightarrow> \<exists>a b c d e f. xs = [a, b, c, d, e, f]"
  by (simp add: numeral_eq_Suc length_Suc_conv) blast

text \<open>
  Claim C4. For every input, the exception \<open>parse_fen\<close> raises (none, when it returns a
  record) is the first violation in the fixed sequence of checks: the number of fields;
  in the placement field the number of ranks, then rank by rank its characters from left
  to right followed by the length of its row; then side to move, castling, en passant,
  halfmove clock and fullmove number. For the input
  \<open>2r3k7/p3bqp1/Q2p3p/3Pp3/P3C3/8/5PPP/5RK1 b - - 1 27\<close> the error reported is the
  length of row 1 (14 columns), although the character \<open>C\<close> of rank 5 is a violation too.
\<close>

theorem first_violation_reported:
  "raised (parse_fen fen) = first_raised (fen_violations fen) \<and>
   parse_fen (py ''2r3k7/p3bqp1/Q2p3p/3Pp3/P3C3/8/5PPP/5RK1 b - - 1 27'') =
     Inl (ParseError (RowSumsTo 1 14)) \<and>
   Some (LexicalError (CharNotAllowed (cp CHR ''C'') 5)) \<in>
     set (fen_violations (py ''2r3k7/p3bqp1/Q2p3p/3Pp3/P3C3/8/5PPP/5RK1 b - - 1 27''))"
proof (intro conjI)
  show "raised (parse_fen fen) = first_raised (fen_violations fen)"
  proof (cases "length (split (strip fen)) = 6")
    case True
    then obtain a b c d e f where parts: "split (strip fen) = [a, b, c, d, e, f]"
      using length_six by blast
    from raised_parse_fen_six [OF parts] parts show ?thesis
      by (simp add: fen_violations_def)
  next
    case False
    then show ?thesis
      by (simp add: parse_fen_def validate_fields_count_def fen_violations_def Let_def)
  qed
  show "parse_fen (py ''2r3k7/p3bqp1/Q2p3p/3Pp3/P3C3/8/5PPP/5RK1 b - - 1 27'') =
     Inl (ParseError (RowSumsTo 1 14))"
    by (simp add: fen_defs placement_defs field_defs table_defs)
  show "Some (LexicalError (CharNotAllowed (cp CHR ''C'') 5)) \<in>
     set (fen_violations (py ''2r3k7/p3bqp1/Q2p3p/3Pp3/P3C3/8/5PPP/5RK1 b - - 1 27''))"
    by (simp add: violation_defs fen_defs placement_defs field_defs table_defs)
qed

subsection \<open>The decoded record\<close>

text \<open>
  Claim C3. Whenever \<open>parse_fen\<close> returns a record, its board has exactly 8 rows, every
  row has exactly 8 cells, and every cell is empty or holds one of the 12 piece letters.
\<close>

theorem board_is_8_by_8:
  assumes "parse_fen fen = Inr r"
  shows "length (board r) = 8 \<and>
    (\<forall>row\<in>set (board r). length row = 8 \<and>
       (\<forall>c\<in>set row. c = None \<or> (\<exists>p\<in>set (py ''PNBRQKpnbrqk''). c = Some p))) \<and>
    card (set (py ''PNBRQKpnbrqk'')) = 12"
proof -
  from parse_fen_fields [OF assms] obtain placement
    where "parse_piece_placement placement = Inr (board r)" by blast
  from parse_piece_placement_grid [OF this] show ?thesis
    using card_all_pieces by (simp add: all_pieces_letters)
qed

text \<open>C3 at the standard initial position.\<close>

theorem board_is_8_by_8_witness:
  "parse_fen (py ''rnbqkbnr/pppppppp/8/8/8/8/PPPPPPPP/RNBQKBNR w KQkq - 0 1'') =
     Inr \<lparr>board =
            [map Some (py ''rnbqkbnr''), map Some (py ''pppppppp''),
             replicate 8 None, replicate 8 None, replicate 8 None, replicate 8 None,
             map Some (py ''PPPPPPPP''), map Some (py ''RNBQKBNR'')],
          side_to_move = py ''w'', castling = py ''KQkq'', en_passant = py ''-'',
          halfmove_clock = 0, fullmove_number = 1\<rparr> \<and>
   length [map Some (py ''rnbqkbnr''), map Some (py ''pppppppp''),
           replicate 8 None, replicate 8 None, replicate 8 None, replicate 8 None,
           map Some (py ''PPPPPPPP''), map Some (py ''RNBQKBNR'')] = 8 \<and>
   list_all (\<lambda>row. length row = 8 \<and>
               list_all (\<lambda>c. c = None \<or> (\<exists>p\<in>set (py ''PNBRQKpnbrqk''). c = Some p)) row)
     [map Some (py ''rnbqkbnr''), map Some (py ''pppppppp''),
      replicate 8 None, replicate 8 None, replicate 8 None, replicate 8 None,
      map Some (py ''PPPPPPPP''), map Some (py ''RNBQKBNR'')]"
proof -
  have h: "parse_fen (py ''rnbqkbnr/pppppppp/8/8/8/8/PPPPPPPP/RNBQKBNR w KQkq - 0 1'') =
     Inr \<lparr>board =
            [map Some (py ''rnbqkbnr''), map Some (py ''pppppppp''),
             replicate 8 None, replicate 8 None, replicate 8 None, replicate 8 None,
             map Some (py ''PPPPPPPP''), map Some (py ''RNBQKBNR'')],
          side_to_move = py ''w'', castling = py ''KQkq'', en_passant = py ''-'',
          halfmove_clock = 0, fullmove_number = 1\<rparr>"
    by (simp add: fen_defs placement_defs field_defs table_defs)
  from board_is_8_by_8 [OF h] h show ?thesis
    unfolding list_all_iff by simp
qed


text \<open>
  Claim C2 at a position whose halfmove field is SUPERSCRIPT TWO (U+00B2): \<open>parse_fen\<close>
  returns no record and the exception it raises is a \<open>ValueError\<close>, which has no \<open>kind\<close>
  and is neither a \<open>LexicalError\<close> nor a \<open>ParseError\<close>.
\<close>

theorem parse_fen_superscript_two_unclassified:
  "parse_fen (py ''8/8/8/8/8/8/8/8 w - - '' @ [0xB2] @ py '' 1'') = Inl ValueError \<and>
   kind ValueError = None \<and>
   \<not> is_lexical (parse_fen (py ''8/8/8/8/8/8/8/8 w - - '' @ [0xB2] @ py '' 1'')) \<and>
   \<not> is_syntactic (parse_fen (py ''8/8/8/8/8/8/8/8 w - - '' @ [0xB2] @ py '' 1''))"
  by (simp add: fen_defs placement_defs field_defs table_defs)

end
